theory Spec2Isabelle
  imports Main
begin

section \<open>Python values\<close>

text \<open>
  A Python \<open>str\<close> is a sequence of Unicode code points, so it is a list of naturals
  here: the Cyrillic texts of the application are not byte strings. \<open>ascii\<close> turns
  an ASCII literal of the source into such a sequence.
\<close>

type_synonym pystr = "nat list"

definition ascii :: "string \<Rightarrow> pystr" where
  "ascii s = map of_char s"

text \<open>
  A float is kept as the decimal literal it was read from (sign, digits, decimal
  exponent: the digits times ten to the exponent) or as one of the three special
  values. Python holds the double nearest to the literal, which is zero exactly when
  the literal is at most \<open>2 ^ -1075\<close> in magnitude (ties go to the even neighbour).
\<close>

datatype pyfloat = Float_dec bool nat int | Float_inf bool | Float_nan

fun float_nonzero :: "pyfloat \<Rightarrow> bool" where
  "float_nonzero (Float_dec neg m e) =
     (if 0 \<le> e then m \<noteq> 0 else 10 ^ nat (- e) < m * 2 ^ 1075)"
| "float_nonzero (Float_inf neg) = True"
| "float_nonzero Float_nan = True"

text \<open>The values \<open>json.loads\<close> and \<open>response.json()\<close> produce.\<close>

datatype pyval =
    PNone
  | PBool bool
  | PInt int
  | PFloat pyfloat
  | PStr pystr
  | PList "pyval list"
  | PDict "(pystr \<times> pyval) list"

text \<open>Python's truth value of an object, as \<open>if x:\<close> and \<open>not x\<close> test it.\<close>

fun truthy :: "pyval \<Rightarrow> bool" where
  "truthy PNone = False"
| "truthy (PBool b) = b"
| "truthy (PInt i) = (i \<noteq> 0)"
| "truthy (PFloat f) = float_nonzero f"
| "truthy (PStr s) = (s \<noteq> [])"
| "truthy (PList xs) = (xs \<noteq> [])"
| "truthy (PDict kvs) = (kvs \<noteq> [])"

text \<open>The truth value of an \<open>Optional[str]\<close>: \<open>None\<close> and \<open>""\<close> are false.\<close>

fun truthy_opt :: "pystr option \<Rightarrow> bool" where
  "truthy_opt None = False"
| "truthy_opt (Some s) = (s \<noteq> [])"

section \<open>Strings\<close>

text \<open>
  \<open>str.isspace\<close> of one character: the code points Python counts as whitespace,
  which \<open>str.strip()\<close> removes from both ends.
\<close>

definition py_isspace :: "nat \<Rightarrow> bool" where
  "py_isspace c =
     ((9 \<le> c \<and> c \<le> 13) \<or> (28 \<le> c \<and> c \<le> 32) \<or> c = 133 \<or> c = 160 \<or> c = 5760
      \<or> (8192 \<le> c \<and> c \<le> 8202) \<or> c = 8232 \<or> c = 8233 \<or> c = 8239 \<or> c = 8287
      \<or> c = 12288)"

definition py_strip :: "pystr \<Rightarrow> pystr" where
  "py_strip s = rev (dropWhile py_isspace (rev (dropWhile py_isspace s)))"

text \<open>
  \<open>s.split(sep)\<close> for a separator of one character: the pieces between the
  separators, so one piece more than there are separators.
\<close>

fun py_split :: "nat \<Rightarrow> pystr \<Rightarrow> pystr list" where
  "py_split sep [] = [[]]"
| "py_split sep (c # cs) =
     (if c = sep then [] # py_split sep cs
      else (case py_split sep cs of
              [] \<Rightarrow> [[c]]
            | piece # pieces \<Rightarrow> (c # piece) # pieces))"

section \<open>Exceptions, effects and collaborators\<close>

text \<open>
  An exception is a value. Two things are asked of one: its text \<open>str(e)\<close>, and
  (in the tool server) whether it is an \<open>httpx.HTTPStatusError\<close>, which carries the
  status code and the body text of the response.
\<close>

datatype exn =
    Exception pystr
  | HTTPStatusError pystr nat pystr

fun str_exn :: "exn \<Rightarrow> pystr" where
  "str_exn (Exception msg) = msg"
| "str_exn (HTTPStatusError msg code body) = msg"

text \<open>
  The query parameters of a backend request are a Python dict built by assignments to
  distinct string keys: an association list in insertion order.
\<close>

type_synonym params = "(string \<times> pyval) list"

text \<open>
  \<open>RecommendationContext\<close>: the dict \<open>context\<close> of \<open>process_user_query\<close>, which
  \<open>json.dumps\<close> writes into the system prompt of the recommendation request.
\<close>

record recommendation_context =
  user_query :: pystr
  extracted_city :: "pystr option"
  extracted_categories :: pyval
  nko_count :: nat
  nko_data :: "pyval list"

text \<open>
  The three calls of \<open>client.chat.completions.create\<close>. The model name and the prompt
  texts are constants of the source, so a request is determined by which prompt it
  carries, the user's query and, for the recommendation, the context.
\<close>

datatype request =
    City_request pystr
  | Categories_request pystr
  | Recommend_request recommendation_context pystr

text \<open>
  What a completion call returns: the \<open>message.content\<close> of each element of
  \<open>response.choices\<close>, where a content may be \<open>None\<close>.
\<close>

type_synonym completion = "pystr option list"

text \<open>Every network call is appended to a log, in the order the calls are made.\<close>

datatype call =
    Backend_get params
  | Backend_get_id pyval
  | Completion_create request

text \<open>The outcome of \<open>json.loads\<close>: a value, \<open>json.JSONDecodeError\<close>, or another exception.\<close>

datatype loads_result =
    Decoded pyval
  | JSONDecodeError
  | Loads_raised exn

text \<open>The dict \<open>process_user_query\<close> of the server returns.\<close>

record query_result =
  res_response :: "pystr option"
  res_city :: "pystr option"
  res_categories :: pyval

text \<open>
  The collaborators and library functions the code calls but does not define. A network
  collaborator answers from the log of the calls made so far and the request, with an
  exception or with a result:
  \<^item> \<open>env_create\<close>: \<open>client.chat.completions.create\<close>;
  \<^item> \<open>env_get_nko\<close>: \<open>http_client.get\<close> on \<open>/nko\<close>, \<open>raise_for_status\<close> and
    \<open>response.json()\<close> together; the body of a successful answer is the JSON array of
    organization records that the backend's route returns;
  \<^item> \<open>env_get_nko_by_id\<close>: the same three steps on \<open>/nko/{nko_id}\<close>;
  \<^item> \<open>env_loads\<close>: \<open>json.loads\<close>;
  \<^item> \<open>env_lower\<close>: \<open>str.lower\<close>;
  \<^item> \<open>env_dumps\<close>: \<open>json.dumps\<close> with \<open>ensure_ascii=False, indent=2\<close>;
  \<^item> \<open>env_format\<close>: the text of a value inside an f-string.
\<close>

record env =
  env_create :: "call list \<Rightarrow> request \<Rightarrow> exn + completion"
  env_get_nko :: "call list \<Rightarrow> params \<Rightarrow> exn + pyval list"
  env_get_nko_by_id :: "call list \<Rightarrow> pyval \<Rightarrow> exn + pyval"
  env_loads :: "pystr \<Rightarrow> loads_result"
  env_lower :: "pystr \<Rightarrow> pystr"
  env_dumps :: "pyval \<Rightarrow> pystr"
  env_format :: "pyval \<Rightarrow> pystr"

text \<open>
  A computation takes the log, and gives back either the exception it raised or the
  value it returned, with the log extended by the calls it made.
\<close>

type_synonym 'a io = "call list \<Rightarrow> (exn + 'a) \<times> call list"

definition return :: "'a \<Rightarrow> 'a io" where
  "return x log = (Inr x, log)"

definition lift :: "exn + 'a \<Rightarrow> 'a io" where
  "lift r log = (r, log)"

text \<open>Sequencing: an exception of the first part skips the second.\<close>

definition bind :: "'a io \<Rightarrow> ('a \<Rightarrow> 'b io) \<Rightarrow> 'b io" where
  "bind m f log =
     (case m log of
        (Inl e, log') \<Rightarrow> (Inl e, log')
      | (Inr x, log') \<Rightarrow> f x log')"

text \<open>\<open>try: m except Exception as e: h e\<close>\<close>

definition try_except :: "'a io \<Rightarrow> (exn \<Rightarrow> 'a io) \<Rightarrow> 'a io" where
  "try_except m h log =
     (case m log of
        (Inl e, log') \<Rightarrow> h e log'
      | (Inr x, log') \<Rightarrow> (Inr x, log'))"

definition create :: "env \<Rightarrow> request \<Rightarrow> completion io" where
  "create env request log = (env_create env log request, log @ [Completion_create request])"

definition backend_get_nko :: "env \<Rightarrow> params \<Rightarrow> pyval list io" where
  "backend_get_nko env params log = (env_get_nko env log params, log @ [Backend_get params])"

definition backend_get_nko_by_id :: "env \<Rightarrow> pyval \<Rightarrow> pyval io" where
  "backend_get_nko_by_id env nko_id log =
     (env_get_nko_by_id env log nko_id, log @ [Backend_get_id nko_id])"

text \<open>\<open>response.choices[0].message.content\<close>: an empty \<open>choices\<close> raises \<open>IndexError\<close>.\<close>

fun message_content :: "completion \<Rightarrow> exn + pystr option" where
  "message_content [] = Inl (Exception (ascii ''list index out of range''))"
| "message_content (content # choices) = Inr content"

text \<open>\<open>content.strip()\<close>: a content of \<open>None\<close> raises \<open>AttributeError\<close>.\<close>

fun content_strip :: "pystr option \<Rightarrow> exn + pystr" where
  "content_strip None =
     Inl (Exception (ascii (CHR 0x27 # ''NoneType'' @ CHR 0x27 # '' object has no attribute ''
                            @ CHR 0x27 # ''strip'' @ [CHR 0x27])))"
| "content_strip (Some content) = Inr (py_strip content)"

section \<open>The HTTP server: \<open>server.py\<close>\<close>

text \<open>
  \<open>get_nko_list\<close>, \<open>extract_city_from_query\<close> and \<open>extract_categories_from_query\<close>
  are the same text in \<open>server.py\<close> and in \<open>main.py\<close>.
\<close>

definition get_nko_list :: "env \<Rightarrow> params \<Rightarrow> pyval list io" where
  "get_nko_list env params =
     try_except (backend_get_nko env params) (\<lambda>e. return [])"

definition extract_city_from_query :: "env \<Rightarrow> pystr \<Rightarrow> pystr option io" where
  "extract_city_from_query env query =
     try_except
       (bind (create env (City_request query)) (\<lambda>response.
        bind (lift (message_content response)) (\<lambda>content.
        bind (lift (content_strip content)) (\<lambda>city.
        return (if env_lower env city \<noteq> ascii ''null'' then Some city else None)))))
       (\<lambda>e. return None)"

text \<open>The comma-separated reading of a text that is not JSON.\<close>

definition comma_separated :: "pystr \<Rightarrow> pyval" where
  "comma_separated categories_str =
     PList (map (\<lambda>cat. PStr (py_strip cat))
              (filter (\<lambda>cat. py_strip cat \<noteq> []) (py_split 44 categories_str)))"

text \<open>
  \<open>json.loads(categories_str)\<close> inside its own \<open>try\<close>, whose handler takes
  \<open>json.JSONDecodeError\<close> only: any other exception goes on to the outer handler.
\<close>

definition parse_categories :: "env \<Rightarrow> pystr \<Rightarrow> exn + pyval" where
  "parse_categories env categories_str =
     (case env_loads env categories_str of
        Decoded v \<Rightarrow> Inr v
      | JSONDecodeError \<Rightarrow> Inr (comma_separated categories_str)
      | Loads_raised e \<Rightarrow> Inl e)"

definition extract_categories_from_query :: "env \<Rightarrow> pystr \<Rightarrow> pyval io" where
  "extract_categories_from_query env query =
     try_except
       (bind (create env (Categories_request query)) (\<lambda>response.
        bind (lift (message_content response)) (\<lambda>content.
        bind (lift (content_strip content)) (\<lambda>categories_str.
        lift (parse_categories env categories_str)))))
       (\<lambda>e. return (PList []))"

text \<open>Lines 134 to 141: the parameters of the first request.\<close>

definition nko_params :: "pystr option \<Rightarrow> pystr option \<Rightarrow> pyval \<Rightarrow> params" where
  "nko_params jwt_token city categories =
     (case jwt_token of
        None \<Rightarrow> []
      | Some t \<Rightarrow> if t \<noteq> [] then [(''jwt_token'', PStr t)] else [])
     @ (case city of
          None \<Rightarrow> []
        | Some c \<Rightarrow> if c \<noteq> [] then [(''city'', PStr c)] else [])
     @ (if truthy categories then [(''category'', categories)] else [])"

text \<open>Lines 143 to 151: the requests to the backend.\<close>

definition nko_lookup :: "env \<Rightarrow> pystr option \<Rightarrow> pystr option \<Rightarrow> pyval \<Rightarrow> pyval list io" where
  "nko_lookup env jwt_token city categories =
     bind (get_nko_list env (nko_params jwt_token city categories)) (\<lambda>nko_list.
     bind (case city of
             None \<Rightarrow> return nko_list
           | Some c \<Rightarrow>
               if nko_list = [] \<and> c \<noteq> [] then get_nko_list env [(''city'', PStr c)]
               else return nko_list) (\<lambda>nko_list.
     if nko_list = [] then get_nko_list env [] else return nko_list))"

text \<open>Lines 153 to 160: the context.\<close>

definition build_context ::
  "pystr \<Rightarrow> pystr option \<Rightarrow> pyval \<Rightarrow> pyval list \<Rightarrow> recommendation_context" where
  "build_context query city categories nko_list =
     \<lparr>user_query = query,
      extracted_city = city,
      extracted_categories = categories,
      nko_count = length nko_list,
      nko_data = take 5 nko_list\<rparr>"

text \<open>
  The text in front of the error detail:
  \<open>Izvinite, proizoshla oshibka pri obrabotke vashego zaprosa:\<close> and a space, in Cyrillic.
\<close>

definition sorry_prefix :: pystr where
  "sorry_prefix =
     [1048, 1079, 1074, 1080, 1085, 1080, 1090, 1077, 44, 32, 1087, 1088, 1086, 1080, 1079,
      1086, 1096, 1083, 1072, 32, 1086, 1096, 1080, 1073, 1082, 1072, 32, 1087, 1088, 1080,
      32, 1086, 1073, 1088, 1072, 1073, 1086, 1090, 1082, 1077, 32, 1074, 1072, 1096, 1077,
      1075, 1086, 32, 1079, 1072, 1087, 1088, 1086, 1089, 1072, 58, 32]"

definition error_result :: "exn \<Rightarrow> query_result" where
  "error_result e =
     \<lparr>res_response = Some (sorry_prefix @ str_exn e),
      res_city = None,
      res_categories = PList []\<rparr>"

text \<open>Lines 143 to 197: from the extracted filters to the result.\<close>

definition answer_query ::
  "env \<Rightarrow> pystr \<Rightarrow> pystr option \<Rightarrow> pystr option \<Rightarrow> pyval \<Rightarrow> query_result io" where
  "answer_query env query jwt_token city categories =
     bind (nko_lookup env jwt_token city categories) (\<lambda>nko_list.
     bind (create env (Recommend_request (build_context query city categories nko_list) query))
       (\<lambda>response.
     bind (lift (message_content response)) (\<lambda>content.
     return \<lparr>res_response = content, res_city = city, res_categories = categories\<rparr>)))"

text \<open>The body of the \<open>try\<close> of \<open>process_user_query\<close>.\<close>

definition process_body :: "env \<Rightarrow> pystr \<Rightarrow> pystr option \<Rightarrow> query_result io" where
  "process_body env query jwt_token =
     bind (extract_city_from_query env query) (\<lambda>city.
     bind (extract_categories_from_query env query) (\<lambda>categories.
     answer_query env query jwt_token city categories))"

definition process_user_query :: "env \<Rightarrow> pystr \<Rightarrow> pystr option \<Rightarrow> query_result io" where
  "process_user_query env query jwt_token =
     try_except (process_body env query jwt_token) (\<lambda>e. return (error_result e))"

text \<open>The request body of \<open>POST /query\<close>.\<close>

record query_request =
  req_query :: pystr
  req_jwt_token :: "pystr option"

text \<open>
  The response model \<open>QueryResponse\<close>, with the fields \<open>response: str\<close>,
  \<open>city: Optional[str] = None\<close> and \<open>categories: List[str] = []\<close>. The call
  \<open>QueryResponse(**result)\<close> validates each entry of the dict against the annotation of
  its field (the backend imports \<open>ConfigDict\<close>, so this is the validation of pydantic 2,
  which converts no other value to a string): \<open>response\<close> must be a string, \<open>city\<close> is
  \<open>None\<close> or a string, which every \<open>res_city\<close> is, and \<open>categories\<close> must be a list
  whose elements are strings. If a field fails, the call raises one \<open>ValidationError\<close>
  for the fields that failed, in the order of their declaration; otherwise the model
  holds the values it was given.
\<close>

fun is_str :: "pyval \<Rightarrow> bool" where
  "is_str (PStr s) = True"
| "is_str v = False"

fun is_str_list :: "pyval \<Rightarrow> bool" where
  "is_str_list (PList vs) = list_all is_str vs"
| "is_str_list v = False"

definition QueryResponse :: "query_result \<Rightarrow> string list + query_result" where
  "QueryResponse result =
     (let errors = (if res_response result = None then [''response''] else [])
                   @ (if is_str_list (res_categories result) then [] else [''categories''])
      in if errors = [] then Inr result else Inl errors)"

text \<open>
  How a call of the endpoint ends: with the \<open>HTTPException\<close> it raises itself, with
  the \<open>ValidationError\<close> of the response model, with another exception, or with the
  response it returns. The two calls of its last two lines stand outside any \<open>try\<close>.
\<close>

datatype query_outcome =
    HTTPException nat pystr
  | ValidationError "string list"
  | Raised exn
  | Returned query_result

text \<open>\<open>OPENROUTER_API_KEY\<close> is what \<open>os.getenv\<close> gave at start: \<open>None\<close> or a string.\<close>

definition query_nko ::
  "env \<Rightarrow> pystr option \<Rightarrow> query_request \<Rightarrow> call list \<Rightarrow> query_outcome \<times> call list" where
  "query_nko env OPENROUTER_API_KEY request log =
     (if \<not> truthy_opt OPENROUTER_API_KEY
      then (HTTPException 500 (ascii ''OpenRouter API key not configured''), log)
      else (case process_user_query env (req_query request) (req_jwt_token request) log of
              (Inl e, log') \<Rightarrow> (Raised e, log')
            | (Inr result, log') \<Rightarrow>
                (case QueryResponse result of
                   Inl failed \<Rightarrow> (ValidationError failed, log')
                 | Inr response \<Rightarrow> (Returned response, log'))))"

section \<open>The standalone runner: \<open>main.py\<close>\<close>

definition main_process_user_query :: "env \<Rightarrow> pystr \<Rightarrow> pystr option io" where
  "main_process_user_query env query =
     try_except
       (bind (extract_city_from_query env query) (\<lambda>city.
        bind (extract_categories_from_query env query) (\<lambda>categories.
        bind (get_nko_list env
                ((case city of
                    None \<Rightarrow> []
                  | Some c \<Rightarrow> if c \<noteq> [] then [(''city'', PStr c)] else [])
                 @ (if truthy categories then [(''category'', categories)] else [])))
          (\<lambda>nko_list.
        bind (case city of
                None \<Rightarrow> return nko_list
              | Some c \<Rightarrow>
                  if nko_list = [] \<and> c \<noteq> [] then get_nko_list env [(''city'', PStr c)]
                  else return nko_list) (\<lambda>nko_list.
        bind (if nko_list = [] then get_nko_list env [] else return nko_list) (\<lambda>nko_list.
        bind (create env (Recommend_request (build_context query city categories nko_list) query))
          (\<lambda>response.
        bind (lift (message_content response)) (\<lambda>content.
        return content))))))))
       (\<lambda>e. return (Some (sorry_prefix @ str_exn e)))"

section \<open>The tool server: \<open>mcp.py\<close>\<close>

datatype text_content = TextContent pystr

text \<open>
  \<open>args\<close> is a dict read with \<open>args.get\<close> only, so a map; a missing key reads as
  \<open>None\<close>.
\<close>

definition args_get :: "(string \<rightharpoonup> pyval) \<Rightarrow> string \<Rightarrow> pyval" where
  "args_get args key = (case args key of None \<Rightarrow> PNone | Some v \<Rightarrow> v)"

definition get_nko_by_id :: "env \<Rightarrow> (string \<rightharpoonup> pyval) \<Rightarrow> text_content list io" where
  "get_nko_by_id env args =
     (let nko_id = args_get args ''nko_id'' in
      if \<not> truthy nko_id then return [TextContent (ascii ''Error: nko_id is required'')]
      else
        try_except
          (bind (backend_get_nko_by_id env nko_id) (\<lambda>nko_data.
           return [TextContent (env_dumps env nko_data)]))
          (\<lambda>e. case e of
                 HTTPStatusError msg status_code body \<Rightarrow>
                   return [TextContent
                     (if status_code = 404
                      then ascii ''NKO with ID '' @ env_format env nko_id @ ascii '' not found''
                      else ascii ''HTTP error '' @ env_format env (PInt (int status_code))
                           @ ascii '': '' @ body)]
               | Exception msg \<Rightarrow>
                   return [TextContent (ascii ''Error fetching NKO: '' @ str_exn e)]))"

section \<open>\<open>json.loads\<close>\<close>

text \<open>
  The decoder of Python's \<open>json\<close> module on a \<open>str\<close>, after the grammar it accepts:
  RFC 8259 and the literals \<open>NaN\<close>, \<open>Infinity\<close> and \<open>-Infinity\<close>. The text is cut into
  tokens, whitespace allowed between any two, and the tokens are read with a stack of
  the arrays and objects still open. The limits of the interpreter (recursion depth,
  digits of an integer) are not part of it. The functions of the application take the
  decoder from \<open>env_loads\<close>; this one serves where a concrete decoder is needed.
\<close>

definition is_digit :: "nat \<Rightarrow> bool" where
  "is_digit c = (48 \<le> c \<and> c \<le> 57)"

definition digits_value :: "pystr \<Rightarrow> nat" where
  "digits_value ds = foldl (\<lambda>a d. 10 * a + (d - 48)) 0 ds"

definition hex_value :: "nat \<Rightarrow> nat option" where
  "hex_value c =
     (if 48 \<le> c \<and> c \<le> 57 then Some (c - 48)
      else if 97 \<le> c \<and> c \<le> 102 then Some (c - 87)
      else if 65 \<le> c \<and> c \<le> 70 then Some (c - 55)
      else None)"

fun hex4 :: "pystr \<Rightarrow> nat option" where
  "hex4 (a # b # c # d # rest) =
     (case (hex_value a, hex_value b, hex_value c, hex_value d) of
        (Some w, Some x, Some y, Some z) \<Rightarrow> Some (((w * 16 + x) * 16 + y) * 16 + z)
      | _ \<Rightarrow> None)"
| "hex4 _ = None"

definition unescape :: "nat \<Rightarrow> nat option" where
  "unescape e =
     (if e = 34 \<or> e = 92 \<or> e = 47 then Some e
      else if e = 98 then Some 8
      else if e = 102 then Some 12
      else if e = 110 then Some 10
      else if e = 114 then Some 13
      else if e = 116 then Some 9
      else None)"

fun low_surrogate :: "pystr \<Rightarrow> nat option" where
  "low_surrogate (b # u # rest) =
     (if b = 92 \<and> u = 117 then
        (case hex4 rest of
           None \<Rightarrow> None
         | Some lo \<Rightarrow> if 56320 \<le> lo \<and> lo \<le> 57343 then Some lo else None)
      else None)"
| "low_surrogate _ = None"

definition consumed :: "nat \<Rightarrow> nat \<Rightarrow> (pystr \<times> nat) option \<Rightarrow> (pystr \<times> nat) option" where
  "consumed c k r = (case r of None \<Rightarrow> None | Some (s, n) \<Rightarrow> Some (c # s, n + k))"

fun scan_string :: "pystr \<Rightarrow> (pystr \<times> nat) option" where
  "scan_string [] = None"
| "scan_string (c # cs) =
     (if c = 34 then Some ([], 1)
      else if c = 92 then
        (case cs of
           [] \<Rightarrow> None
         | e # cs' \<Rightarrow>
             if e = 117 then
               (case hex4 cs' of
                  None \<Rightarrow> None
                | Some u \<Rightarrow>
                    (case (if 55296 \<le> u \<and> u \<le> 56319 then low_surrogate (drop 4 cs') else None) of
                       Some lo \<Rightarrow>
                         consumed (65536 + (u - 55296) * 1024 + (lo - 56320)) 12
                           (scan_string (drop 10 cs'))
                     | None \<Rightarrow> consumed u 6 (scan_string (drop 4 cs'))))
             else
               (case unescape e of
                  None \<Rightarrow> None
                | Some x \<Rightarrow> consumed x 2 (scan_string cs')))
      else if c < 32 then None
      else consumed c 1 (scan_string cs))"


text \<open>Number literal at the front of the text: the value and the characters used.\<close>

definition scan_exponent :: "pystr \<Rightarrow> (int \<times> nat) option" where
  "scan_exponent s =
     (case s of
        [] \<Rightarrow> None
      | e # r \<Rightarrow>
          if e = 101 \<or> e = 69 then
            (case r of
               [] \<Rightarrow> None
             | x # r' \<Rightarrow>
                 if x = 43 \<or> x = 45 then
                   (let ds = takeWhile is_digit r' in
                    if ds = [] then None
                    else Some (if x = 45 then - int (digits_value ds) else int (digits_value ds),
                               2 + length ds))
                 else
                   (let ds = takeWhile is_digit r in
                    if ds = [] then None else Some (int (digits_value ds), 1 + length ds)))
          else None)"

definition scan_fraction :: "pystr \<Rightarrow> pystr" where
  "scan_fraction s =
     (case s of
        [] \<Rightarrow> []
      | d # r \<Rightarrow> if d = 46 then takeWhile is_digit r else [])"

definition scan_integer :: "pystr \<Rightarrow> pystr" where
  "scan_integer s =
     (case s of
        [] \<Rightarrow> []
      | d # r \<Rightarrow>
          if d = 48 then [d]
          else if is_digit d then d # takeWhile is_digit r
          else [])"

definition scan_number :: "pystr \<Rightarrow> (pyval \<times> nat) option" where
  "scan_number s =
     (let neg = (case s of [] \<Rightarrow> False | c # r \<Rightarrow> c = 45);
          s1 = (if neg then drop 1 s else s);
          ip = scan_integer s1
      in if ip = [] then None
         else
           (let s2 = drop (length ip) s1;
                fp = scan_fraction s2;
                s3 = (if fp = [] then s2 else drop (Suc (length fp)) s2);
                n2 = (if neg then 1 else 0) + length ip + (if fp = [] then 0 else Suc (length fp))
            in case scan_exponent s3 of
                 None \<Rightarrow>
                   if fp = []
                   then Some (PInt (if neg then - int (digits_value ip) else int (digits_value ip)), n2)
                   else Some (PFloat (Float_dec neg (digits_value (ip @ fp)) (- int (length fp))), n2)
               | Some (ex, n3) \<Rightarrow>
                   Some (PFloat (Float_dec neg (digits_value (ip @ fp)) (ex - int (length fp))),
                         n2 + n3)))"

definition starts_with :: "pystr \<Rightarrow> pystr \<Rightarrow> bool" where
  "starts_with lit s = (take (length lit) s = lit)"

definition scan_scalar :: "pystr \<Rightarrow> (pyval \<times> nat) option" where
  "scan_scalar s =
     (if starts_with (ascii ''null'') s then Some (PNone, 4)
      else if starts_with (ascii ''true'') s then Some (PBool True, 4)
      else if starts_with (ascii ''false'') s then Some (PBool False, 5)
      else if starts_with (ascii ''NaN'') s then Some (PFloat Float_nan, 3)
      else if starts_with (ascii ''Infinity'') s then Some (PFloat (Float_inf False), 8)
      else if starts_with (ascii ''-Infinity'') s then Some (PFloat (Float_inf True), 9)
      else scan_number s)"

datatype token =
    T_lbracket | T_rbracket | T_lbrace | T_rbrace | T_comma | T_colon
  | T_string pystr
  | T_scalar pyval

definition json_ws :: "nat \<Rightarrow> bool" where
  "json_ws c = (c = 32 \<or> c = 9 \<or> c = 10 \<or> c = 13)"

definition punctuation :: "nat \<Rightarrow> token option" where
  "punctuation c =
     (if c = 91 then Some T_lbracket
      else if c = 93 then Some T_rbracket
      else if c = 123 then Some T_lbrace
      else if c = 125 then Some T_rbrace
      else if c = 44 then Some T_comma
      else if c = 58 then Some T_colon
      else None)"

definition and_then :: "token \<Rightarrow> token list option \<Rightarrow> token list option" where
  "and_then t r = (case r of None \<Rightarrow> None | Some ts \<Rightarrow> Some (t # ts))"

fun tokenize :: "pystr \<Rightarrow> token list option" where
  "tokenize [] = Some []"
| "tokenize (c # cs) =
     (if json_ws c then tokenize cs
      else
        (case punctuation c of
           Some t \<Rightarrow> and_then t (tokenize cs)
         | None \<Rightarrow>
             if c = 34 then
               (case scan_string cs of
                  None \<Rightarrow> None
                | Some (s, n) \<Rightarrow> and_then (T_string s) (tokenize (drop n cs)))
             else
               (case scan_scalar (c # cs) of
                  None \<Rightarrow> None
                | Some (v, n) \<Rightarrow> and_then (T_scalar v) (tokenize (drop (n - 1) cs)))))"

text \<open>An array or object under construction, with what has been read of it.\<close>

datatype frame =
    Array_frame "pyval list"
  | Object_frame "(pystr \<times> pyval) list" pystr

datatype mode =
    Want_value bool
  | Want_key bool
  | Want_colon
  | Want_separator
  | Finished pyval
  | Rejected

text \<open>Assignment to a dict key: a key already there keeps its place.\<close>

fun dict_set :: "(pystr \<times> pyval) list \<Rightarrow> pystr \<Rightarrow> pyval \<Rightarrow> (pystr \<times> pyval) list" where
  "dict_set [] k v = [(k, v)]"
| "dict_set ((k', v') # kvs) k v =
     (if k' = k then (k', v) # kvs else (k', v') # dict_set kvs k v)"

fun complete :: "pyval \<Rightarrow> frame list \<Rightarrow> mode \<times> frame list" where
  "complete v [] = (Finished v, [])"
| "complete v (Array_frame items # stack) = (Want_separator, Array_frame (items @ [v]) # stack)"
| "complete v (Object_frame pairs key # stack) =
     (Want_separator, Object_frame (dict_set pairs key v) key # stack)"

fun parse_step :: "mode \<times> frame list \<Rightarrow> token \<Rightarrow> mode \<times> frame list" where
  "parse_step (Want_value first, stack) (T_scalar v) = complete v stack"
| "parse_step (Want_value first, stack) (T_string s) = complete (PStr s) stack"
| "parse_step (Want_value first, stack) T_lbracket = (Want_value True, Array_frame [] # stack)"
| "parse_step (Want_value first, stack) T_lbrace = (Want_key True, Object_frame [] [] # stack)"
| "parse_step (Want_value True, Array_frame items # stack) T_rbracket = complete (PList items) stack"
| "parse_step (Want_key first, Object_frame pairs key # stack) (T_string s) =
     (Want_colon, Object_frame pairs s # stack)"
| "parse_step (Want_key True, Object_frame pairs key # stack) T_rbrace = complete (PDict pairs) stack"
| "parse_step (Want_colon, stack) T_colon = (Want_value False, stack)"
| "parse_step (Want_separator, Array_frame items # stack) T_comma =
     (Want_value False, Array_frame items # stack)"
| "parse_step (Want_separator, Array_frame items # stack) T_rbracket = complete (PList items) stack"
| "parse_step (Want_separator, Object_frame pairs key # stack) T_comma =
     (Want_key False, Object_frame pairs key # stack)"
| "parse_step (Want_separator, Object_frame pairs key # stack) T_rbrace = complete (PDict pairs) stack"
| "parse_step (m, stack) t = (Rejected, stack)"

definition json_loads :: "pystr \<Rightarrow> loads_result" where
  "json_loads s =
     (case tokenize s of
        None \<Rightarrow> JSONDecodeError
      | Some ts \<Rightarrow>
          (case foldl parse_step (Want_value False, []) ts of
             (Finished v, stack) \<Rightarrow> Decoded v
           | _ \<Rightarrow> JSONDecodeError))"

section \<open>The cascade as the specification words it\<close>

text \<open>
  The candidate filter sets in their order: the full set, the city-only set when a
  city was extracted, the empty set.
\<close>

definition candidates :: "pystr option \<Rightarrow> pystr option \<Rightarrow> pyval \<Rightarrow> params list" where
  "candidates jwt_token city categories =
     [nko_params jwt_token city categories]
     @ (case city of
          None \<Rightarrow> []
        | Some c \<Rightarrow> if c \<noteq> [] then [[(''city'', PStr c)]] else [])
     @ [[]]"

text \<open>
  What a filter set carries, as the specification words it: the auth token if one is
  present, the city if one was extracted, the categories if there are any, and nothing
  else. The full set is the filter set of the token, the city and the categories; the
  city-only set is the filter set of the city alone; the empty set carries nothing.
  Present, extracted and any are Python's truth values.
\<close>

definition filter_set :: "pystr option \<Rightarrow> pystr option \<Rightarrow> pyval \<Rightarrow> (string \<rightharpoonup> pyval)" where
  "filter_set auth_token city categories =
     (\<lambda>key.
        if key = ''jwt_token'' then
          (case auth_token of None \<Rightarrow> None | Some t \<Rightarrow> if t = [] then None else Some (PStr t))
        else if key = ''city'' then
          (case city of None \<Rightarrow> None | Some c \<Rightarrow> if c = [] then None else Some (PStr c))
        else if key = ''category'' then
          (if truthy categories then Some categories else None)
        else None)"

text \<open>The answer of the backend to one candidate, an exception counting as no records.\<close>

definition records_of :: "exn + pyval list \<Rightarrow> pyval list" where
  "records_of outcome = (case outcome of Inl e \<Rightarrow> [] | Inr body \<Rightarrow> body)"

text \<open>
  Trying candidates in order: one backend call per candidate tried; the first
  non-empty answer ends the search, and when the candidates run out the last answer
  stands.
\<close>

fun first_nonempty ::
  "env \<Rightarrow> params list \<Rightarrow> pyval list \<Rightarrow> call list \<Rightarrow> pyval list \<times> call list" where
  "first_nonempty env [] previous log = (previous, log)"
| "first_nonempty env (p # ps) previous log =
     (let records = records_of (env_get_nko env log p);
          log' = log @ [Backend_get p]
      in if records \<noteq> [] then (records, log') else first_nonempty env ps records log')"

text \<open>
  Reading the text of a completion: the call, \<open>choices[0].message.content\<close> and
  \<open>strip()\<close>. A failure of any of the three is a failure of the completion.
\<close>

definition completion_text :: "exn + completion \<Rightarrow> exn + pystr" where
  "completion_text outcome =
     (case outcome of
        Inl e \<Rightarrow> Inl e
      | Inr response \<Rightarrow>
          (case message_content response of
             Inl e \<Rightarrow> Inl e
           | Inr content \<Rightarrow> content_strip content))"

section \<open>Example collaborators\<close>

text \<open>\<open>str.lower\<close> on the Basic Latin and Cyrillic capitals; other code points are kept.\<close>

definition lower_basic :: "pystr \<Rightarrow> pystr" where
  "lower_basic s =
     map (\<lambda>c. if 65 \<le> c \<and> c \<le> 90 then c + 32
              else if 1040 \<le> c \<and> c \<le> 1071 then c + 32
              else if 1024 \<le> c \<and> c \<le> 1039 then c + 80
              else c) s"

text \<open>
  An environment from a completion provider and a backend. The examples never reach
  \<open>json.dumps\<close>, an f-string or the lookup by identifier.
\<close>

definition example_env ::
  "(call list \<Rightarrow> request \<Rightarrow> exn + completion) \<Rightarrow> (call list \<Rightarrow> params \<Rightarrow> exn + pyval list) \<Rightarrow> env" where
  "example_env provider backend =
     \<lparr>env_create = provider,
      env_get_nko = backend,
      env_get_nko_by_id = (\<lambda>log nko_id. Inl (Exception [])),
      env_loads = json_loads,
      env_lower = lower_basic,
      env_dumps = (\<lambda>v. []),
      env_format = (\<lambda>v. [])\<rparr>"

text \<open>The text \<open>eda, pomoshch zhivotnym\<close> of the specification, in Cyrillic, and its two parts.\<close>

definition example_text :: pystr where
  "example_text =
     [1077, 1076, 97, 44, 32, 1087, 1086, 1084, 1086, 1097, 1100, 32, 1078, 1080, 1074, 1086,
      1090, 1085, 1099, 1084]"

definition example_food :: pystr where
  "example_food = [1077, 1076, 97]"

definition example_animals :: pystr where
  "example_animals =
     [1087, 1086, 1084, 1086, 1097, 1100, 32, 1078, 1080, 1074, 1086, 1090, 1085, 1099, 1084]"

text \<open>
  The query, city and category of the specification's scenario (a query for animal
  volunteering in Kazan), the example text written as a JSON array, and a record.
\<close>

definition example_query :: pystr where
  "example_query =
     [1074, 1086, 1083, 1086, 1085, 1090, 1105, 1088, 1089, 1090, 1074, 1086, 32, 1076, 1083,
      1103, 32, 1078, 1080, 1074, 1086, 1090, 1085, 1099, 1093, 32, 1074, 32, 1050, 1072, 1079,
      1072, 1085, 1080]"

definition example_city :: pystr where
  "example_city = [1050, 1072, 1079, 1072, 1085, 1100]"

definition example_category :: pystr where
  "example_category = [1078, 1080, 1074, 1086, 1090, 1085, 1099, 1077]"

definition example_json :: pystr where
  "example_json = [91, 34, 1077, 1076, 97, 34, 44, 32, 34, 1087, 1086, 1084, 1086, 1097, 1100, 32, 1078, 1080, 1074, 1086, 1090, 1085, 1099, 1084, 34, 93]"

definition example_record :: "int \<Rightarrow> pyval" where
  "example_record i = PDict [(ascii ''id'', PInt i)]"

text \<open>Completion providers: one that is down, one that fails the two extraction calls only,
  one that replies a fixed text to every request.\<close>

definition provider_down :: "call list \<Rightarrow> request \<Rightarrow> exn + completion" where
  "provider_down log request = Inl (Exception (ascii ''Connection error.''))"

definition provider_extraction_down :: "call list \<Rightarrow> request \<Rightarrow> exn + completion" where
  "provider_extraction_down log request =
     (case request of
        Recommend_request c q \<Rightarrow> Inr [Some (ascii ''ok'')]
      | _ \<Rightarrow> Inl (Exception (ascii ''Connection error.'')))"

definition provider_replies :: "pystr \<Rightarrow> call list \<Rightarrow> request \<Rightarrow> exn + completion" where
  "provider_replies text log request = Inr [Some text]"

text \<open>
  A provider that names the city and the category, and whose recommendation is a
  message without text: \<open>choices[0].message.content\<close> is \<open>None\<close>.
\<close>

definition provider_no_content :: "call list \<Rightarrow> request \<Rightarrow> exn + completion" where
  "provider_no_content log request =
     (case request of
        City_request q \<Rightarrow> Inr [Some example_city]
      | Categories_request q \<Rightarrow> Inr [Some example_json]
      | Recommend_request c q \<Rightarrow> Inr [None])"

text \<open>An auth token and a provider key.\<close>

definition example_token :: pystr where
  "example_token = ascii ''token''"

definition example_key :: pystr where
  "example_key = ascii ''key''"


definition backend_twelve :: "call list \<Rightarrow> params \<Rightarrow> exn + pyval list" where
  "backend_twelve log params = Inr (map example_record [1, 2, 3, 4, 5, 6, 7, 8, 9, 10, 11, 12])"

definition backend_empty :: "call list \<Rightarrow> params \<Rightarrow> exn + pyval list" where
  "backend_empty log params = Inr []"

text \<open>A backend with one record, which matches no filter.\<close>

definition backend_unfiltered_only :: "call list \<Rightarrow> params \<Rightarrow> exn + pyval list" where
  "backend_unfiltered_only log params = (if params = [] then Inr [example_record 1] else Inr [])"

section \<open>Running the parts\<close>

text \<open>What each part returns and logs, in terms of the collaborators' answers.\<close>

lemma get_nko_list_run:
  "get_nko_list env params log = (Inr (records_of (env_get_nko env log params)), log @ [Backend_get params])"
  by (simp add: get_nko_list_def try_except_def backend_get_nko_def return_def records_of_def
      split: sum.splits)

lemma nko_lookup_run:
  "nko_lookup env jwt_token city categories log =
     (Inr (fst (first_nonempty env (candidates jwt_token city categories) [] log)),
      snd (first_nonempty env (candidates jwt_token city categories) [] log))"
  by (simp add: nko_lookup_def candidates_def get_nko_list_run bind_def return_def Let_def
      split: option.splits)

lemma first_nonempty_log:
  "\<exists>k. k \<le> length ps \<and> snd (first_nonempty env ps previous log) = log @ map Backend_get (take k ps)
       \<and> (ps \<noteq> [] \<longrightarrow> 0 < k)"
proof (induction ps arbitrary: previous log)
  case Nil
  then show ?case by simp
next
  case (Cons p ps)
  show ?case
  proof (cases "records_of (env_get_nko env log p) = []")
    case True
    from Cons.IH [of "[]" "log @ [Backend_get p]"]
    obtain k where "k \<le> length ps"
      and "snd (first_nonempty env ps [] (log @ [Backend_get p])) =
             (log @ [Backend_get p]) @ map Backend_get (take k ps)"
      by blast
    with True show ?thesis
      by (intro exI [of _ "Suc k"]) (simp add: Let_def)
  next
    case False
    then show ?thesis
      by (intro exI [of _ "Suc 0"]) (simp add: Let_def)
  qed
qed

lemma extract_city_run:
  "extract_city_from_query env q log =
     (Inr (case completion_text (env_create env log (City_request q)) of
             Inl e \<Rightarrow> None
           | Inr city \<Rightarrow> if env_lower env city \<noteq> ascii ''null'' then Some city else None),
      log @ [Completion_create (City_request q)])"
  by (simp add: extract_city_from_query_def try_except_def bind_def create_def lift_def
      return_def completion_text_def split: sum.splits)

lemma extract_categories_run:
  "extract_categories_from_query env q log =
     (Inr (case completion_text (env_create env log (Categories_request q)) of
             Inl e \<Rightarrow> PList []
           | Inr categories_str \<Rightarrow>
               (case parse_categories env categories_str of
                  Inl e \<Rightarrow> PList []
                | Inr v \<Rightarrow> v)),
      log @ [Completion_create (Categories_request q)])"
  by (simp add: extract_categories_from_query_def try_except_def bind_def create_def lift_def
      return_def completion_text_def split: sum.splits)

lemma bind_assoc: "bind (bind m f) g = bind m (\<lambda>x. bind (f x) g)"
  by (auto simp: bind_def fun_eq_iff split: sum.splits prod.splits)

lemma main_lookup:
  "bind (get_nko_list env
           ((case city of None \<Rightarrow> [] | Some c \<Rightarrow> if c \<noteq> [] then [(''city'', PStr c)] else [])
            @ (if truthy cats then [(''category'', cats)] else [])))
     (\<lambda>nko_list.
        bind (case city of
                None \<Rightarrow> return nko_list
              | Some c \<Rightarrow>
                  if nko_list = [] \<and> c \<noteq> [] then get_nko_list env [(''city'', PStr c)]
                  else return nko_list) (\<lambda>nko_list.
        bind (if nko_list = [] then get_nko_list env [] else return nko_list) K)) =
   bind (nko_lookup env None city cats) K"
  by (simp add: nko_lookup_def nko_params_def bind_assoc)

text \<open>The example texts, evaluated.\<close>

lemma loads_null: "json_loads (ascii ''null'') = Decoded PNone"
  by code_simp

lemma loads_example_text: "json_loads example_text = JSONDecodeError"
  by code_simp

lemma comma_separated_example: "comma_separated example_text = PList [PStr example_food, PStr example_animals]"
  by code_simp

lemma strip_padded_example: "py_strip (32 # example_text @ [10]) = example_text"
  by code_simp

lemma strip_null: "py_strip (ascii ''null'') = ascii ''null''"
  by code_simp

lemma strip_example_json: "py_strip example_json = example_json"
  by code_simp

lemma loads_example_json:
  "json_loads example_json = Decoded (PList [PStr example_food, PStr example_animals])"
  by code_simp

lemma filter_map_strip:
  "map PStr (filter (\<lambda>fragment. fragment \<noteq> []) (map py_strip pieces)) =
     map (\<lambda>cat. PStr (py_strip cat)) (filter (\<lambda>cat. py_strip cat \<noteq> []) pieces)"
  by (induction pieces) simp_all


lemma strip_example_city: "py_strip example_city = example_city"
  by code_simp

lemma lower_example_city: "lower_basic example_city \<noteq> ascii ''null''"
  by code_simp

lemma candidates_filter_sets:
  "map map_of (candidates jwt_token city categories) =
     [filter_set jwt_token city categories]
     @ (if truthy_opt city then [filter_set None city (PList [])] else [])
     @ [filter_set None None (PList [])]"
  by (auto simp: candidates_def nko_params_def filter_set_def fun_eq_iff split: option.splits)

lemma candidates_distinct:
  "list_all (\<lambda>p. distinct (map fst p)) (candidates jwt_token city categories)"
  by (auto simp: candidates_def nko_params_def split: option.splits)

lemma lower_null: "lower_basic (ascii ''null'') = ascii ''null''"
  by code_simp

section \<open>The fallback cascade\<close>

text \<open>
  Claim C1. In every cycle the lookup tries the candidate filter sets in a fixed order:
  first the full set (the token if it is given, the city, the categories), then, if a
  city was extracted, the city alone, then the empty set. It stops at the first
  candidate whose call returns records, and makes exactly one backend call for each
  candidate it tries: the calls it adds to the log are a non-empty initial part of the
  candidates, in their order. Each request is a dict with distinct keys, and read as
  a filter set the requests are the full set, the city-only set and the empty set:
  the full set carries the token under \<open>jwt_token\<close> exactly when a token is present,
  the city under \<open>city\<close> exactly when a city was extracted, the categories under
  \<open>category\<close> exactly when there are any, and nothing else; the city-only set carries
  at most the city; the empty set carries nothing.
\<close>

theorem fallback_order:
  "nko_lookup env jwt_token city categories log =
     (Inr (fst (first_nonempty env (candidates jwt_token city categories) [] log)),
      snd (first_nonempty env (candidates jwt_token city categories) [] log))
   \<and> (\<exists>k. 0 < k \<and> k \<le> length (candidates jwt_token city categories)
          \<and> snd (nko_lookup env jwt_token city categories log) =
              log @ map Backend_get (take k (candidates jwt_token city categories)))
   \<and> map map_of (candidates jwt_token city categories) =
       [filter_set jwt_token city categories]
       @ (if truthy_opt city then [filter_set None city (PList [])] else [])
       @ [filter_set None None (PList [])]
   \<and> list_all (\<lambda>p. distinct (map fst p)) (candidates jwt_token city categories)
   \<and> filter_set jwt_token city categories ''jwt_token'' =
       (if truthy_opt jwt_token then map_option PStr jwt_token else None)
   \<and> filter_set jwt_token city categories ''city'' =
       (if truthy_opt city then map_option PStr city else None)
   \<and> filter_set jwt_token city categories ''category'' =
       (if truthy categories then Some categories else None)
   \<and> dom (filter_set jwt_token city categories) \<subseteq> {''jwt_token'', ''city'', ''category''}
   \<and> dom (filter_set None city (PList [])) \<subseteq> {''city''}
   \<and> dom (filter_set None None (PList [])) = {}"
proof -
  have ne: "candidates jwt_token city categories \<noteq> []"
    by (simp add: candidates_def)
  have run: "nko_lookup env jwt_token city categories log =
     (Inr (fst (first_nonempty env (candidates jwt_token city categories) [] log)),
      snd (first_nonempty env (candidates jwt_token city categories) [] log))"
    by (rule nko_lookup_run)
  have calls: "\<exists>k. 0 < k \<and> k \<le> length (candidates jwt_token city categories)
          \<and> snd (nko_lookup env jwt_token city categories log) =
              log @ map Backend_get (take k (candidates jwt_token city categories))"
    using first_nonempty_log [of "candidates jwt_token city categories" env "[]" log] ne
    by (auto simp: nko_lookup_run)
  have fields: "filter_set jwt_token city categories ''jwt_token'' =
       (if truthy_opt jwt_token then map_option PStr jwt_token else None)"
    "filter_set jwt_token city categories ''city'' =
       (if truthy_opt city then map_option PStr city else None)"
    "filter_set jwt_token city categories ''category'' =
       (if truthy categories then Some categories else None)"
    by (simp_all add: filter_set_def split: option.splits)
  have doms: "dom (filter_set jwt_token city categories) \<subseteq> {''jwt_token'', ''city'', ''category''}"
    "dom (filter_set None city (PList [])) \<subseteq> {''city''}"
    "dom (filter_set None None (PList [])) = {}"
    by (auto simp: filter_set_def dom_def split: option.splits if_splits)
  from run calls candidates_filter_sets [of jwt_token city categories]
    candidates_distinct [of jwt_token city categories] fields doms
  show ?thesis
    by blast
qed

text \<open>
  An instance: a token, a city and a category are given, and the backend has one
  record, which matches no filter. The lookup makes the three requests in order, the
  first with the token, the city and the category, the second with the city alone, the
  third with nothing, and returns the record.
\<close>

theorem fallback_order_witness:
  "nko_lookup (example_env provider_down backend_unfiltered_only) (Some example_token)
       (Some example_city) (PList [PStr example_category]) [] =
     (Inr [example_record 1],
      [Backend_get [(''jwt_token'', PStr example_token), (''city'', PStr example_city),
                    (''category'', PList [PStr example_category])],
       Backend_get [(''city'', PStr example_city)],
       Backend_get []])
   \<and> map map_of (candidates (Some example_token) (Some example_city)
                   (PList [PStr example_category])) =
       [filter_set (Some example_token) (Some example_city) (PList [PStr example_category]),
        filter_set None (Some example_city) (PList []),
        filter_set None None (PList [])]
   \<and> filter_set (Some example_token) (Some example_city) (PList [PStr example_category])
       ''jwt_token'' = Some (PStr example_token)"
proof -
  have t: "example_token \<noteq> []"
    by (simp add: example_token_def ascii_def)
  have c: "example_city \<noteq> []"
    by (simp add: example_city_def)
  have cs: "candidates (Some example_token) (Some example_city) (PList [PStr example_category]) =
     [[(''jwt_token'', PStr example_token), (''city'', PStr example_city),
       (''category'', PList [PStr example_category])],
      [(''city'', PStr example_city)], []]"
    by (simp add: candidates_def nko_params_def t c)
  have tried: "first_nonempty (example_env provider_down backend_unfiltered_only)
       [[(''jwt_token'', PStr example_token), (''city'', PStr example_city),
         (''category'', PList [PStr example_category])],
        [(''city'', PStr example_city)], []] [] [] =
     ([example_record 1],
      [Backend_get [(''jwt_token'', PStr example_token), (''city'', PStr example_city),
                    (''category'', PList [PStr example_category])],
       Backend_get [(''city'', PStr example_city)],
       Backend_get []])"
    by (simp add: records_of_def Let_def example_env_def backend_unfiltered_only_def)
  note order = fallback_order [of "example_env provider_down backend_unfiltered_only"
         "Some example_token" "Some example_city" "PList [PStr example_category]" "[]"]
  have run: "nko_lookup (example_env provider_down backend_unfiltered_only) (Some example_token)
       (Some example_city) (PList [PStr example_category]) [] =
     (Inr [example_record 1],
      [Backend_get [(''jwt_token'', PStr example_token), (''city'', PStr example_city),
                    (''category'', PList [PStr example_category])],
       Backend_get [(''city'', PStr example_city)],
       Backend_get []])"
    using order [THEN conjunct1] by (simp only: cs tried fst_conv snd_conv)
  have sets: "map map_of (candidates (Some example_token) (Some example_city)
                   (PList [PStr example_category])) =
       [filter_set (Some example_token) (Some example_city) (PList [PStr example_category]),
        filter_set None (Some example_city) (PList []),
        filter_set None None (PList [])]"
    using order [THEN conjunct2, THEN conjunct2, THEN conjunct1] c
    by simp
  have token: "filter_set (Some example_token) (Some example_city) (PList [PStr example_category])
       ''jwt_token'' = Some (PStr example_token)"
    using order [THEN conjunct2, THEN conjunct2, THEN conjunct2, THEN conjunct2, THEN conjunct1] t
    by simp
  from run sets token show ?thesis
    by (intro conjI)
qed



section \<open>Extraction\<close>

text \<open>
  Claim C3. The claim is that the extracted categories are never null but always a
  sequence of strings. The JSON branch returns whatever \<open>json.loads\<close> decodes: when the
  completion replies the text \<open>null\<close>, the function annotated \<open>List[str]\<close> returns
  \<open>None\<close>, and so does the result of the whole cycle.
\<close>

theorem categories_null_reply:
  "extract_categories_from_query
     (example_env (provider_replies (ascii ''null'')) backend_empty) example_query [] =
   (Inr PNone, [Completion_create (Categories_request example_query)])
   \<and> fst (process_user_query
       (example_env (provider_replies (ascii ''null'')) backend_empty) example_query None []) =
     Inr \<lparr>res_response = Some (ascii ''null''), res_city = None, res_categories = PNone\<rparr>"
  by (simp add: process_user_query_def process_body_def answer_query_def try_except_def
        bind_def extract_city_run extract_categories_run nko_lookup_run candidates_def
        nko_params_def records_of_def Let_def create_def lift_def return_def
        example_env_def provider_replies_def backend_empty_def completion_text_def
        parse_categories_def loads_null strip_null lower_null)

text \<open>
  Claim C4. When the completion call of an extraction fails (the call raises, the response
  has no choices, or its content is \<open>None\<close>), the city is \<open>None\<close> and the categories
  are the empty list, and the cycle goes on: \<open>process_user_query\<close> continues with the
  lookup and the recommendation for no city and no categories.
\<close>

theorem extraction_failure_degrades:
  "(completion_text (env_create env log (City_request q)) = Inl e \<longrightarrow>
      extract_city_from_query env q log = (Inr None, log @ [Completion_create (City_request q)]))
   \<and> (completion_text (env_create env log (Categories_request q)) = Inl e \<longrightarrow>
      extract_categories_from_query env q log =
        (Inr (PList []), log @ [Completion_create (Categories_request q)]))
   \<and> (completion_text (env_create env log (City_request q)) = Inl e
      \<and> completion_text (env_create env (log @ [Completion_create (City_request q)])
                           (Categories_request q)) = Inl e' \<longrightarrow>
      process_user_query env q jwt_token log =
        try_except (answer_query env q jwt_token None (PList [])) (\<lambda>e. return (error_result e))
          (log @ [Completion_create (City_request q), Completion_create (Categories_request q)]))"
  by (simp add: extract_city_run extract_categories_run process_user_query_def process_body_def
      bind_def try_except_def)

text \<open>
  An instance: the provider fails both extraction calls; the cycle asks the backend
  without filters and returns the recommendation.
\<close>

theorem extraction_failure_degrades_witness:
  "completion_text (env_create (example_env provider_extraction_down backend_twelve) []
       (City_request example_query)) = Inl (Exception (ascii ''Connection error.''))
   \<and> completion_text (env_create (example_env provider_extraction_down backend_twelve)
       [Completion_create (City_request example_query)] (Categories_request example_query)) =
     Inl (Exception (ascii ''Connection error.''))
   \<and> extract_city_from_query (example_env provider_extraction_down backend_twelve)
       example_query [] = (Inr None, [Completion_create (City_request example_query)])
   \<and> extract_categories_from_query (example_env provider_extraction_down backend_twelve)
       example_query [Completion_create (City_request example_query)] =
     (Inr (PList []),
      [Completion_create (City_request example_query),
       Completion_create (Categories_request example_query)])
   \<and> fst (process_user_query (example_env provider_extraction_down backend_twelve)
       example_query None []) =
     Inr \<lparr>res_response = Some (ascii ''ok''), res_city = None, res_categories = PList []\<rparr>
   \<and> take 3 (snd (process_user_query (example_env provider_extraction_down backend_twelve)
       example_query None [])) =
     [Completion_create (City_request example_query),
      Completion_create (Categories_request example_query),
      Backend_get []]"
proof -
  let ?E = "example_env provider_extraction_down backend_twelve"
  have h1: "completion_text (env_create ?E [] (City_request example_query)) =
              Inl (Exception (ascii ''Connection error.''))"
    by (simp add: example_env_def provider_extraction_down_def completion_text_def)
  have h2: "completion_text (env_create ?E [Completion_create (City_request example_query)]
              (Categories_request example_query)) = Inl (Exception (ascii ''Connection error.''))"
    by (simp add: example_env_def provider_extraction_down_def completion_text_def)
  have h3: "completion_text (env_create ?E [] (Categories_request example_query)) =
              Inl (Exception (ascii ''Connection error.''))"
    by (simp add: example_env_def provider_extraction_down_def completion_text_def)
  have a: "answer_query ?E example_query None None (PList [])
             [Completion_create (City_request example_query),
              Completion_create (Categories_request example_query)] =
           (Inr \<lparr>res_response = Some (ascii ''ok''), res_city = None, res_categories = PList []\<rparr>,
            [Completion_create (City_request example_query),
             Completion_create (Categories_request example_query),
             Backend_get [],
             Completion_create
               (Recommend_request
                  (build_context example_query None (PList [])
                     (map example_record [1, 2, 3, 4, 5, 6, 7, 8, 9, 10, 11, 12]))
                  example_query)])"
    by (simp add: answer_query_def bind_def nko_lookup_run candidates_def nko_params_def
          records_of_def Let_def create_def lift_def return_def example_env_def
          backend_twelve_def provider_extraction_down_def)
  from extraction_failure_degrades [of ?E "[]" example_query "Exception (ascii ''Connection error.'')"
         "Exception (ascii ''Connection error.'')" None]
       extraction_failure_degrades [of ?E "[Completion_create (City_request example_query)]"
         example_query "Exception (ascii ''Connection error.'')"]
       h1 h2 h3 a
  show ?thesis
    by (simp add: try_except_def)
qed

text \<open>
  Claim C5. The stripped text of the categories completion is parsed as JSON, and what the
  decoder returns is the result; when the decoder raises \<open>JSONDecodeError\<close>, the text is
  split at commas, each fragment is stripped, and the empty ones are dropped. The text
  of the specification is not JSON and yields exactly its two parts.
\<close>

theorem categories_parsing:
  "(env_create env log (Categories_request q) = Inr (Some text # choices)
    \<and> env_loads env (py_strip text) = Decoded v \<longrightarrow>
      extract_categories_from_query env q log =
        (Inr v, log @ [Completion_create (Categories_request q)]))
   \<and> (env_create env log (Categories_request q) = Inr (Some text # choices)
      \<and> env_loads env (py_strip text) = JSONDecodeError \<longrightarrow>
      extract_categories_from_query env q log =
        (Inr (PList (map PStr (filter (\<lambda>fragment. fragment \<noteq> [])
                                (map py_strip (py_split 44 (py_strip text)))))),
         log @ [Completion_create (Categories_request q)]))
   \<and> (env_loads env example_text = JSONDecodeError \<longrightarrow>
        parse_categories env example_text = Inr (PList [PStr example_food, PStr example_animals]))
   \<and> json_loads example_text = JSONDecodeError"
  by (simp add: extract_categories_run completion_text_def parse_categories_def
        comma_separated_def filter_map_strip loads_example_text comma_separated_example [unfolded comma_separated_def])

text \<open>
  Two instances: the example text with whitespace around it goes through the comma
  branch, and the same two categories written as a JSON array go through the decoder.
\<close>

theorem categories_parsing_witness:
  "env_create (example_env (provider_replies (32 # example_text @ [10])) backend_empty) []
       (Categories_request example_query) = Inr [Some (32 # example_text @ [10])]
   \<and> env_loads (example_env (provider_replies (32 # example_text @ [10])) backend_empty)
       (py_strip (32 # example_text @ [10])) = JSONDecodeError
   \<and> extract_categories_from_query
       (example_env (provider_replies (32 # example_text @ [10])) backend_empty) example_query [] =
     (Inr (PList [PStr example_food, PStr example_animals]),
      [Completion_create (Categories_request example_query)])
   \<and> env_create (example_env (provider_replies example_json) backend_empty) []
       (Categories_request example_query) = Inr [Some example_json]
   \<and> env_loads (example_env (provider_replies example_json) backend_empty)
       (py_strip example_json) = Decoded (PList [PStr example_food, PStr example_animals])
   \<and> extract_categories_from_query
       (example_env (provider_replies example_json) backend_empty) example_query [] =
     (Inr (PList [PStr example_food, PStr example_animals]),
      [Completion_create (Categories_request example_query)])"
proof -
  let ?E = "example_env (provider_replies (32 # example_text @ [10])) backend_empty"
  let ?J = "example_env (provider_replies example_json) backend_empty"
  have c: "env_create ?E [] (Categories_request example_query) = Inr [Some (32 # example_text @ [10])]"
    by (simp add: example_env_def provider_replies_def)
  have l: "env_loads ?E (py_strip (32 # example_text @ [10])) = JSONDecodeError"
    by (simp add: example_env_def strip_padded_example loads_example_text)
  have cj: "env_create ?J [] (Categories_request example_query) = Inr [Some example_json]"
    by (simp add: example_env_def provider_replies_def)
  have lj: "env_loads ?J (py_strip example_json) =
              Decoded (PList [PStr example_food, PStr example_animals])"
    by (simp add: example_env_def strip_example_json loads_example_json)
  have s: "map PStr (filter (\<lambda>fragment. fragment \<noteq> []) (map py_strip (py_split 44 example_text))) =
             [PStr example_food, PStr example_animals]"
    using comma_separated_example by (simp add: comma_separated_def filter_map_strip)
  from categories_parsing [of ?E "[]" example_query "32 # example_text @ [10]" "[]" PNone]
       categories_parsing [of ?J "[]" example_query example_json "[]"
                             "PList [PStr example_food, PStr example_animals]"]
       c l cj lj s
  show ?thesis
    by (simp add: strip_padded_example)
qed

section \<open>The context\<close>

text \<open>
  Claim C6. The context given to the recommendation request holds the first five records
  of the record list, at most five whatever its length (five for a list of twelve), and
  its count is the length of the whole list.
\<close>

theorem context_capped:
  "nko_data (build_context q city categories records) = take 5 records
   \<and> length (nko_data (build_context q city categories records)) = min 5 (length records)
   \<and> nko_count (build_context q city categories records) = length records
   \<and> (length records = 12 \<longrightarrow>
        length (nko_data (build_context q city categories records)) = 5
        \<and> nko_count (build_context q city categories records) = 12)
   \<and> (nko_lookup env jwt_token city categories log = (Inr records, log') \<longrightarrow>
        snd (answer_query env q jwt_token city categories log) =
          log' @ [Completion_create
                    (Recommend_request (build_context q city categories records) q)])"
  by (auto simp: build_context_def answer_query_def bind_def create_def lift_def return_def
      split: sum.splits)

text \<open>An instance: a backend with twelve records.\<close>

theorem context_capped_witness:
  "nko_lookup (example_env provider_down backend_twelve) None None (PList []) [] =
     (Inr (map example_record [1, 2, 3, 4, 5, 6, 7, 8, 9, 10, 11, 12]), [Backend_get []])
   \<and> length (map example_record [1, 2, 3, 4, 5, 6, 7, 8, 9, 10, 11, 12]) = 12
   \<and> snd (answer_query (example_env provider_down backend_twelve) example_query None None
            (PList []) []) =
     [Backend_get [],
      Completion_create
        (Recommend_request
           \<lparr>user_query = example_query, extracted_city = None, extracted_categories = PList [],
            nko_count = 12, nko_data = map example_record [1, 2, 3, 4, 5]\<rparr>
           example_query)]"
proof -
  let ?E = "example_env provider_down backend_twelve"
  let ?rs = "map example_record [1, 2, 3, 4, 5, 6, 7, 8, 9, 10, 11, 12]"
  have l: "nko_lookup ?E None None (PList []) [] = (Inr ?rs, [Backend_get []])"
    by (simp add: nko_lookup_run candidates_def nko_params_def records_of_def Let_def
          example_env_def backend_twelve_def)
  from context_capped [of example_query None "PList []" ?rs ?E None "[]" "[Backend_get []]"] l
  show ?thesis
    by (simp add: build_context_def)
qed

section \<open>The orchestrator\<close>

text \<open>
  Claim C7. The claim is that every exception of a cycle is caught by the orchestrator
  and becomes the apology, so that no exception reaches the transport, which always
  receives a well-formed response. The handler of \<open>process_user_query\<close> encloses the
  three stages, but \<open>query_nko\<close> validates the result after it, outside any \<open>try\<close>.
  When the recommendation is a message without text, \<open>process_user_query\<close> returns a
  result whose \<open>response\<close> is \<open>None\<close>, and the endpoint ends with the
  \<open>ValidationError\<close> of the response model; when the categories completion replies
  \<open>null\<close>, it does so on the categories \<open>None\<close>. In both cycles no stage raised and no
  apology was made.
\<close>

theorem validation_error_reaches_transport:
  "process_user_query (example_env provider_no_content backend_empty) example_query None [] =
     (Inr \<lparr>res_response = None, res_city = Some example_city,
           res_categories = PList [PStr example_food, PStr example_animals]\<rparr>,
      [Completion_create (City_request example_query),
       Completion_create (Categories_request example_query),
       Backend_get [(''city'', PStr example_city),
                    (''category'', PList [PStr example_food, PStr example_animals])],
       Backend_get [(''city'', PStr example_city)],
       Backend_get [],
       Completion_create
         (Recommend_request
            (build_context example_query (Some example_city)
               (PList [PStr example_food, PStr example_animals]) [])
            example_query)])
   \<and> fst (query_nko (example_env provider_no_content backend_empty) (Some example_key)
            \<lparr>req_query = example_query, req_jwt_token = None\<rparr> []) =
       ValidationError [''response'']
   \<and> fst (process_user_query (example_env (provider_replies (ascii ''null'')) backend_empty)
            example_query None []) =
       Inr \<lparr>res_response = Some (ascii ''null''), res_city = None, res_categories = PNone\<rparr>
   \<and> fst (query_nko (example_env (provider_replies (ascii ''null'')) backend_empty)
            (Some example_key) \<lparr>req_query = example_query, req_jwt_token = None\<rparr> []) =
       ValidationError [''categories'']"
proof -
  let ?E = "example_env provider_no_content backend_empty"
  let ?N = "example_env (provider_replies (ascii ''null'')) backend_empty"
  have c: "example_city \<noteq> []"
    by (simp add: example_city_def)
  have k: "example_key \<noteq> []"
    by (simp add: example_key_def ascii_def)
  have no_content: "process_user_query ?E example_query None [] =
     (Inr \<lparr>res_response = None, res_city = Some example_city,
           res_categories = PList [PStr example_food, PStr example_animals]\<rparr>,
      [Completion_create (City_request example_query),
       Completion_create (Categories_request example_query),
       Backend_get [(''city'', PStr example_city),
                    (''category'', PList [PStr example_food, PStr example_animals])],
       Backend_get [(''city'', PStr example_city)],
       Backend_get [],
       Completion_create
         (Recommend_request
            (build_context example_query (Some example_city)
               (PList [PStr example_food, PStr example_animals]) [])
            example_query)])"
    by (simp add: process_user_query_def process_body_def answer_query_def try_except_def
          bind_def extract_city_run extract_categories_run nko_lookup_run candidates_def
          nko_params_def records_of_def Let_def create_def lift_def return_def
          example_env_def provider_no_content_def backend_empty_def completion_text_def
          parse_categories_def
          strip_example_city lower_example_city strip_example_json loads_example_json c)
  have null_reply: "process_user_query ?N example_query None [] =
     (Inr \<lparr>res_response = Some (ascii ''null''), res_city = None, res_categories = PNone\<rparr>,
      [Completion_create (City_request example_query),
       Completion_create (Categories_request example_query),
       Backend_get [], Backend_get [],
       Completion_create
         (Recommend_request (build_context example_query None PNone []) example_query)])"
    by (simp add: process_user_query_def process_body_def answer_query_def try_except_def
          bind_def extract_city_run extract_categories_run nko_lookup_run candidates_def
          nko_params_def records_of_def Let_def create_def lift_def return_def
          example_env_def provider_replies_def backend_empty_def completion_text_def
          parse_categories_def
          loads_null strip_null lower_null)
  show ?thesis
    by (simp add: no_content null_reply query_nko_def QueryResponse_def k)
qed

section \<open>What the orchestrator does catch\<close>

text \<open>
  \<open>process_user_query\<close> itself never raises: an exception of its body becomes the
  result with the apology followed by the text of the exception, no city and no
  categories, and a result of the body is returned as it is. Extraction and lookup
  catch their own exceptions.
\<close>

theorem orchestrator_catches:
  "(\<exists>result log'. process_user_query env q jwt_token log = (Inr result, log'))
   \<and> (process_body env q jwt_token log = (Inl e, log') \<longrightarrow>
        process_user_query env q jwt_token log =
          (Inr \<lparr>res_response = Some (sorry_prefix @ str_exn e), res_city = None,
                res_categories = PList []\<rparr>, log'))
   \<and> (process_body env q jwt_token log = (Inr result, log') \<longrightarrow>
        process_user_query env q jwt_token log = (Inr result, log'))
   \<and> (\<exists>city log'. extract_city_from_query env q log = (Inr city, log'))
   \<and> (\<exists>categories log'. extract_categories_from_query env q log = (Inr categories, log'))
   \<and> (\<exists>records log'. nko_lookup env jwt_token city categories log = (Inr records, log'))"
proof -
  have "\<exists>result log'. process_user_query env q jwt_token log = (Inr result, log')"
    by (cases "process_body env q jwt_token log")
      (auto simp: process_user_query_def try_except_def return_def split: sum.splits)
  then show ?thesis
    by (simp add: process_user_query_def try_except_def return_def error_result_def
        extract_city_run extract_categories_run nko_lookup_run)
qed

text \<open>
  An instance: the provider is down, so both extractions degrade, the backend is asked
  twice, and the failure of the recommendation call becomes the apology.
\<close>

theorem orchestrator_catches_witness:
  "process_body (example_env provider_down backend_empty) example_query None [] =
     (Inl (Exception (ascii ''Connection error.'')),
      [Completion_create (City_request example_query),
       Completion_create (Categories_request example_query),
       Backend_get [], Backend_get [],
       Completion_create
         (Recommend_request (build_context example_query None (PList []) []) example_query)])
   \<and> process_user_query (example_env provider_down backend_empty) example_query None [] =
     (Inr \<lparr>res_response = Some (sorry_prefix @ ascii ''Connection error.''), res_city = None,
           res_categories = PList []\<rparr>,
      [Completion_create (City_request example_query),
       Completion_create (Categories_request example_query),
       Backend_get [], Backend_get [],
       Completion_create
         (Recommend_request (build_context example_query None (PList []) []) example_query)])"
proof -
  let ?E = "example_env provider_down backend_empty"
  have b: "process_body ?E example_query None [] =
     (Inl (Exception (ascii ''Connection error.'')),
      [Completion_create (City_request example_query),
       Completion_create (Categories_request example_query),
       Backend_get [], Backend_get [],
       Completion_create
         (Recommend_request (build_context example_query None (PList []) []) example_query)])"
    by (simp add: process_body_def bind_def extract_city_run extract_categories_run
          answer_query_def nko_lookup_run candidates_def nko_params_def records_of_def Let_def
          create_def completion_text_def example_env_def provider_down_def backend_empty_def)
  from orchestrator_catches [of ?E example_query None "[]" "Exception (ascii ''Connection error.'')"
         _ _ None "PList []"] b
  show ?thesis
    by simp
qed

section \<open>The endpoint without a provider key\<close>

text \<open>
  Claim C8. When the provider key is not configured (absent, or the empty string),
  \<open>POST /query\<close> ends at once with the server error and makes no network call: the
  log is returned as it was.
\<close>

theorem query_without_key:
  "query_nko env None request log =
     (HTTPException 500 (ascii ''OpenRouter API key not configured''), log)
   \<and> query_nko env (Some []) request log =
     (HTTPException 500 (ascii ''OpenRouter API key not configured''), log)"
  by (simp add: query_nko_def)

section \<open>The runner and the server\<close>

text \<open>
  Claim C9. Without a token, on the same collaborators, the runner's \<open>process_user_query\<close>
  makes the same calls as the server's (the same backend requests and the same
  recommendation request, which carries the context), and returns the \<open>response\<close>
  field of the server's result.
\<close>

theorem runner_matches_server:
  "main_process_user_query env q log =
     (case process_user_query env q None log of
        (Inl e, log') \<Rightarrow> (Inl e, log')
      | (Inr result, log') \<Rightarrow> (Inr (res_response result), log'))"
proof -
  obtain city l1 where c: "extract_city_from_query env q log = (Inr city, l1)"
    by (simp add: extract_city_run)
  obtain cats l2 where k: "extract_categories_from_query env q l1 = (Inr cats, l2)"
    by (simp add: extract_categories_run)
  obtain rs l3 where r: "nko_lookup env None city cats l2 = (Inr rs, l3)"
    by (simp add: nko_lookup_run)
  show ?thesis
    unfolding main_process_user_query_def process_user_query_def process_body_def
      answer_query_def main_lookup
    by (simp add: try_except_def bind_def [of "extract_city_from_query env q"]
          bind_def [of "extract_categories_from_query env q"] c k
          bind_def [of "nko_lookup env None city cats"] r)
      (auto simp: bind_def create_def lift_def return_def error_result_def
         split: sum.splits prod.splits)
qed

section \<open>The identifier 0 in the tool server\<close>

text \<open>
  Claim C10. \<open>get_nko_by_id\<close> called with \<open>nko_id\<close> equal to 0 answers
  \<open>Error: nko_id is required\<close> without a backend call, exactly as it does when the
  identifier is absent: the guard tests the truth value of the argument.
\<close>

theorem nko_id_zero_rejected:
  "get_nko_by_id env (args(''nko_id'' \<mapsto> PInt 0)) log =
     (Inr [TextContent (ascii ''Error: nko_id is required'')], log)
   \<and> get_nko_by_id env (args(''nko_id'' := None)) log =
     (Inr [TextContent (ascii ''Error: nko_id is required'')], log)"
  by (simp add: get_nko_by_id_def args_get_def return_def)

end
